theory Spec2Isabelle
  imports Complex_Main "HOL-Library.Word"
begin

section \<open>Numbers of the analytics state\<close>

text \<open>
  The metrics are JavaScript numbers. Counts and latencies handed to the aggregator are
  finite measurements and are modelled as exact reals: rounding and overflow of the
  double format are abstracted away. Sums and products of finite numbers stay finite; the
  one operation of \<open>updateMetrics\<close> that can leave the finite numbers is its division,
  which gives \<open>Infinity\<close> or \<open>NaN\<close> on a zero divisor. The average is therefore a
  \<open>jsnum\<close>: a finite real, or \<open>NonFinite\<close> for \<open>NaN\<close> and both infinities.
  Every arithmetic operation used on the average keeps a non-finite value non-finite.
\<close>

datatype jsnum = Fin real | NonFinite

fun jmul :: "jsnum \<Rightarrow> real \<Rightarrow> jsnum" where
  "jmul (Fin a) r = Fin (a * r)"
| "jmul NonFinite r = NonFinite"

fun jadd :: "jsnum \<Rightarrow> real \<Rightarrow> jsnum" where
  "jadd (Fin a) r = Fin (a + r)"
| "jadd NonFinite r = NonFinite"

fun jdiv :: "jsnum \<Rightarrow> real \<Rightarrow> jsnum" where
  "jdiv (Fin a) r = (if r = 0 then NonFinite else Fin (a / r))"
| "jdiv NonFinite r = NonFinite"

text \<open>
  An optional numeric field of a \<open>Partial\<close> object is \<open>None\<close> when it is absent.
  \<open>x || 0\<close> yields \<open>0\<close> for an absent field and for \<open>0\<close>, and a numeric field is
  truthy when it is present and not zero.
\<close>

definition or_zero :: "real option \<Rightarrow> real" where
  "or_zero x = (case x of None \<Rightarrow> 0 | Some v \<Rightarrow> if v = 0 then 0 else v)"

definition truthy :: "real option \<Rightarrow> bool" where
  "truthy x = (case x of None \<Rightarrow> False | Some v \<Rightarrow> v \<noteq> 0)"

section \<open>Analytics aggregator (App, \<open>updateMetrics\<close>)\<close>

record Latency =
  stt :: real
  llm :: real
  tts :: real
  total :: real

record AnalyticsMetrics =
  totalQueries :: real
  avgResponseTime :: jsnum
  backendCalls :: real
  lastQueryLatency :: "Latency option"

text \<open>\<open>Partial<AnalyticsMetrics>\<close>: every field may be absent.\<close>

record PartialMetrics =
  p_totalQueries :: "real option"
  p_avgResponseTime :: "real option"
  p_backendCalls :: "real option"
  p_lastQueryLatency :: "Latency option"

definition initialMetrics :: AnalyticsMetrics where
  "initialMetrics =
     \<lparr>totalQueries = 0, avgResponseTime = Fin 0, backendCalls = 0, lastQueryLatency = None\<rparr>"

definition noMetrics :: PartialMetrics where
  "noMetrics =
     \<lparr>p_totalQueries = None, p_avgResponseTime = None, p_backendCalls = None,
      p_lastQueryLatency = None\<rparr>"

text \<open>
  The state updater passed to \<open>setMetrics\<close>. The new average is computed from the old
  count \<open>prev.totalQueries\<close> and divided by the new count.
\<close>

definition updateMetrics :: "PartialMetrics \<Rightarrow> AnalyticsMetrics \<Rightarrow> AnalyticsMetrics" where
  "updateMetrics newMetrics prev =
     (let totalQueries' = or_zero (Some (totalQueries prev)) + or_zero (p_totalQueries newMetrics);
          avgResponseTime' =
            (if truthy (p_avgResponseTime newMetrics) \<and> truthy (p_totalQueries newMetrics)
             then jdiv (jadd (jmul (avgResponseTime prev) (totalQueries prev))
                             (or_zero (p_avgResponseTime newMetrics)))
                       totalQueries'
             else avgResponseTime prev)
      in \<lparr>totalQueries = totalQueries',
          avgResponseTime = avgResponseTime',
          backendCalls = backendCalls prev + or_zero (p_backendCalls newMetrics),
          lastQueryLatency =
            (case p_lastQueryLatency newMetrics of
               Some l \<Rightarrow> Some l
             | None \<Rightarrow> lastQueryLatency prev)\<rparr>)"

text \<open>A fold as one turn reports it: one query with the given total latency.\<close>

definition one_query :: "PartialMetrics \<Rightarrow> real \<Rightarrow> bool" where
  "one_query p t \<longleftrightarrow> p_totalQueries p = Some 1 \<and> p_avgResponseTime p = Some t \<and> 0 < t"

section \<open>Strings and exceptions\<close>

text \<open>
  Strings are lists of 8-bit characters: the model covers strings whose code units are
  below 256. \<open>String.prototype.trim\<close> removes white space and line terminators from
  both ends; in that range these are TAB, LF, VT, FF, CR, SPACE and NBSP.
\<close>

definition is_ws :: "char \<Rightarrow> bool" where
  "is_ws c \<longleftrightarrow> (of_char c :: nat) \<in> {9, 10, 11, 12, 13, 32, 160}"

definition trim :: "string \<Rightarrow> string" where
  "trim s = rev (dropWhile is_ws (rev (dropWhile is_ws s)))"

text \<open>\<open>s.includes(sub)\<close>: \<open>sub\<close> occurs in \<open>s\<close> as a contiguous run.\<close>

fun str_includes :: "string \<Rightarrow> string \<Rightarrow> bool" where
  "str_includes [] sub = (sub = [])"
| "str_includes (c # cs) sub = (take (length sub) (c # cs) = sub \<or> str_includes cs sub)"

text \<open>\<open>Number.prototype.toString\<close> on a non-negative integer: its decimal digits.\<close>

definition digit :: "nat \<Rightarrow> char" where
  "digit d = char_of (48 + d)"

fun toString :: "nat \<Rightarrow> string" where
  "toString n = (if n < 10 then [digit n] else toString (n div 10) @ [digit (n mod 10)])"

text \<open>
  A thrown value: an \<open>Error\<close> built by this code with its message, the \<open>TypeError\<close> of a
  property read on \<open>undefined\<close>, or whatever an external collaborator (engine, transport,
  browser) throws, kept as the text its \<open>toString\<close> gives.
\<close>

datatype exn = JsError string | TypeError | External string

fun exn_toString :: "exn \<Rightarrow> string" where
  "exn_toString (JsError m) = ''Error: '' @ m"
| "exn_toString TypeError = ''TypeError: Cannot read properties of undefined''"
| "exn_toString (External m) = m"

text \<open>Truthiness of an optional string: absent and empty are both falsy.\<close>

definition falsy :: "string option \<Rightarrow> bool" where
  "falsy x = (case x of None \<Rightarrow> True | Some v \<Rightarrow> v = [])"

text \<open>\<open>xs?.[0]\<close> on an array that is present: its first element, if any.\<close>

definition first :: "'a list \<Rightarrow> 'a option" where
  "first xs = (case xs of [] \<Rightarrow> None | x # _ \<Rightarrow> Some x)"

section \<open>Service layer (\<open>geminiService\<close>)\<close>

subsection \<open>Mock backend and tools\<close>

text \<open>
  What a tool hands back: an order record, the \<open>status\<close>-only record of a missing
  order, the account record, the \<open>error\<close> record of an unknown function, or a member
  that the \<open>orders\<close> object inherits from \<open>Object.prototype\<close>.
\<close>

datatype ApiResult =
    Order string string
  | StatusOnly string
  | Account real string string
  | ErrorResult string
  | Inherited string

definition orders :: "string \<Rightarrow> ApiResult option" where
  "orders k =
     (if k = ''ORD-123'' then Some (Order ''Shipped'' ''2023-10-25'')
      else if k = ''ORD-456'' then Some (Order ''Processing'' ''TBD'')
      else if k = ''ORD-789'' then Some (Order ''Delivered'' ''2023-10-20'')
      else if k \<in> set [''constructor'', ''hasOwnProperty'', ''isPrototypeOf'',
                        ''propertyIsEnumerable'', ''toLocaleString'', ''toString'',
                        ''valueOf'', ''__proto__'', ''__defineGetter__'',
                        ''__defineSetter__'', ''__lookupGetter__'', ''__lookupSetter__'']
      then Some (Inherited k)
      else None)"

definition user_main :: ApiResult where
  "user_main = Account (1250.50) ''USD'' ''Premium''"

text \<open>
  A function call requested by the engine; \<open>id\<close>, \<open>name\<close> and \<open>args\<close> are optional in
  the engine's interface. Arguments are string-valued, as the declared schema says.
\<close>

record FunctionCall =
  call_id :: "string option"
  call_name :: "string option"
  call_args :: "(string \<rightharpoonup> string) option"

record FunctionResponse =
  fr_id :: "string option"
  fr_name :: "string option"
  fr_result :: ApiResult

text \<open>
  One iteration of the loop over the calls. Reading \<open>args.orderId\<close> throws when \<open>args\<close>
  is absent; an absent \<open>orderId\<close> is the key \<open>undefined\<close>.
\<close>

definition run_call :: "FunctionCall \<Rightarrow> exn + FunctionResponse" where
  "run_call call =
     (let apiResult =
        (if call_name call = Some ''getOrderStatus'' then
           (case call_args call of
              None \<Rightarrow> Inl TypeError
            | Some args \<Rightarrow>
                (let id = (case args ''orderId'' of None \<Rightarrow> ''undefined'' | Some v \<Rightarrow> v)
                 in case orders id of
                      Some order \<Rightarrow> Inr order
                    | None \<Rightarrow> Inr (StatusOnly ''Order not found.'')))
         else if call_name call = Some ''getAccountBalance'' then Inr user_main
         else Inr (ErrorResult ''Function not found''))
      in case apiResult of
           Inl e \<Rightarrow> Inl e
         | Inr r \<Rightarrow> Inr \<lparr>fr_id = call_id call, fr_name = call_name call, fr_result = r\<rparr>)"

fun run_calls :: "FunctionCall list \<Rightarrow> exn + FunctionResponse list" where
  "run_calls [] = Inr []"
| "run_calls (call # calls) =
     (case run_call call of
        Inl e \<Rightarrow> Inl e
      | Inr part \<Rightarrow>
          (case run_calls calls of
             Inl e \<Rightarrow> Inl e
           | Inr parts \<Rightarrow> Inr (part # parts)))"

subsection \<open>The external engine\<close>

text \<open>
  The engine is an external collaborator: each request either throws or answers. A chat
  answer is read through \<open>text\<close> and \<open>functionCalls\<close>, a speech answer through the
  chain \<open>candidates[0].content.parts[0].inlineData.data\<close>, every link of which may be
  absent.
\<close>

record ChatResult =
  res_text :: "string option"
  functionCalls :: "FunctionCall list option"

datatype ChatInput = UserMessage string | ToolParts "FunctionResponse list"

record InlineData =
  inline_data :: "string option"

record Part =
  inlineData :: "InlineData option"

record Content =
  parts :: "Part list option"

record Candidate =
  content :: "Content option"

record SpeechResult =
  candidates :: "Candidate list option"

text \<open>The requests that reach the external services, in the order they are issued.\<close>

datatype ServiceCall =
    TranscribeRequest string string
  | ChatSend ChatInput
  | SpeechRequest string string

subsection \<open>\<open>transcribeAudio\<close>\<close>

text \<open>
  The first argument is the engine's answer to the transcription request: the \<open>text\<close>
  of the response, or a throw. The function rethrows a failure under one of two messages.
\<close>

definition transcribeAudio ::
  "(string \<Rightarrow> string \<Rightarrow> exn + string option) \<Rightarrow> string \<Rightarrow> string
     \<Rightarrow> (exn + string) \<times> ServiceCall list" where
  "transcribeAudio generateContent base64Audio mimeType =
     ((case generateContent base64Audio mimeType of
         Inr response_text \<Rightarrow>
           (if falsy response_text then Inr [] else Inr (the response_text))
       | Inl e \<Rightarrow>
           (if str_includes (exn_toString e) ''400''
            then Inl (JsError ''Audio format not supported or file too short.'')
            else Inl (JsError ''Failed to process audio. Please try again.''))),
      [TranscribeRequest base64Audio mimeType])"

subsection \<open>\<open>generateSpeech\<close>\<close>

type_synonym bytes = "8 word list"

definition audio_of :: "SpeechResult \<Rightarrow> string option" where
  "audio_of response =
     Option.bind (candidates response) (\<lambda>cs.
     Option.bind (first cs) (\<lambda>c.
     Option.bind (content c) (\<lambda>ct.
     Option.bind (parts ct) (\<lambda>ps.
     Option.bind (first ps) (\<lambda>p.
     Option.bind (inlineData p) inline_data)))))"

text \<open>
  The body of the \<open>try\<close> block. \<open>atob\<close> is the browser's base64 decoder; it throws on
  text that is not base64. The service is asked only after the blank check.
\<close>

definition generateSpeech_try ::
  "(string \<Rightarrow> string \<Rightarrow> exn + SpeechResult) \<Rightarrow> (string \<Rightarrow> exn + string) \<Rightarrow> string \<Rightarrow> string
     \<Rightarrow> (exn + bytes option) \<times> ServiceCall list" where
  "generateSpeech_try generateContent atob txt voiceName =
     (if trim txt = [] then (Inr None, [])
      else
        ((case generateContent txt voiceName of
            Inl e \<Rightarrow> Inl e
          | Inr response \<Rightarrow>
              (let base64Audio = audio_of response
               in if falsy base64Audio then Inl (JsError ''Gemini returned no audio data.'')
                  else (case atob (the base64Audio) of
                          Inl e \<Rightarrow> Inl e
                        | Inr binaryString \<Rightarrow> Inr (Some (map of_char binaryString))))),
         [SpeechRequest txt voiceName]))"

text \<open>The \<open>catch\<close> replaces every thrown value by one generic error.\<close>

definition generateSpeech ::
  "(string \<Rightarrow> string \<Rightarrow> exn + SpeechResult) \<Rightarrow> (string \<Rightarrow> exn + string) \<Rightarrow> string \<Rightarrow> string
     \<Rightarrow> (exn + bytes option) \<times> ServiceCall list" where
  "generateSpeech generateContent atob txt voiceName =
     (case generateSpeech_try generateContent atob txt voiceName of
        (Inl e, cs) \<Rightarrow> (Inl (JsError ''Speech generation failed. Service might be busy.''), cs)
      | (Inr r, cs) \<Rightarrow> (Inr r, cs))"

subsection \<open>\<open>getBotResponse\<close>\<close>

record BotResponse =
  bot_text :: string
  toolUsed :: bool

datatype Chat = Chat

definition clarification :: string where
  "clarification = ''I'm sorry, I didn't quite get that. Could you rephrase?''"

definition apology :: string where
  "apology = ''I'm having a bit of trouble connecting to my systems right now. Please try again in a moment.''"

text \<open>The end of the \<open>try\<close> block: the final text, or the fallback for an empty one.\<close>

definition final_response :: "ChatResult \<Rightarrow> bool \<Rightarrow> BotResponse" where
  "final_response result used =
     (if falsy (res_text result) then \<lparr>bot_text = clarification, toolUsed = False\<rparr>
      else \<lparr>bot_text = the (res_text result), toolUsed = used\<rparr>)"

text \<open>
  The body of the \<open>try\<close> block: send the user's text, run the requested tools if any and
  send their results back in one further round, then read the final text.
\<close>

definition getBotResponse_try ::
  "(ChatInput \<Rightarrow> exn + ChatResult) \<Rightarrow> string \<Rightarrow> (exn + BotResponse) \<times> ServiceCall list" where
  "getBotResponse_try sendMessage userText =
     (case sendMessage (UserMessage userText) of
        Inl e \<Rightarrow> (Inl e, [ChatSend (UserMessage userText)])
      | Inr result \<Rightarrow>
          (case functionCalls result of
             Some (c # cs) \<Rightarrow>
               (case run_calls (c # cs) of
                  Inl e \<Rightarrow> (Inl e, [ChatSend (UserMessage userText)])
                | Inr ps \<Rightarrow>
                    (case sendMessage (ToolParts ps) of
                       Inl e \<Rightarrow>
                         (Inl e, [ChatSend (UserMessage userText), ChatSend (ToolParts ps)])
                     | Inr result' \<Rightarrow>
                         (Inr (final_response result' True),
                          [ChatSend (UserMessage userText), ChatSend (ToolParts ps)])))
           | _ \<Rightarrow> (Inr (final_response result False), [ChatSend (UserMessage userText)])))"

text \<open>
  The whole function: the chat session is created on first use (a local construction
  that issues no request), and the \<open>catch\<close> turns every thrown value into the fallback
  answer. The result is a sum so that a throw out of the function would be visible.
\<close>

definition getBotResponse ::
  "(ChatInput \<Rightarrow> exn + ChatResult) \<Rightarrow> Chat option \<Rightarrow> string
     \<Rightarrow> (exn + BotResponse) \<times> Chat option \<times> ServiceCall list" where
  "getBotResponse sendMessage chatSession userText =
     (let chatSession' = (case chatSession of None \<Rightarrow> Some Chat | Some c \<Rightarrow> Some c)
      in case getBotResponse_try sendMessage userText of
           (Inl e, cs) \<Rightarrow> (Inr \<lparr>bot_text = apology, toolUsed = False\<rparr>, chatSession', cs)
         | (Inr r, cs) \<Rightarrow> (Inr r, chatSession', cs))"

section \<open>Voice bot view (\<open>VoiceBotView\<close>)\<close>

subsection \<open>State\<close>

datatype LoadingState =
  Idle | Recording | Transcribing | Thinking | Synthesizing | Playing | Error

datatype Role = User | Model

record Message =
  msg_id :: string
  msg_role :: Role
  msg_text :: string
  msg_timestamp :: nat
  msg_audioUrl :: "string option"
  msg_isToolUse :: "bool option"

text \<open>
  An audio buffer source node: created, started, or finished (stopped, or played to its
  end). \<open>stop\<close> throws on a node that was never started and is harmless afterwards.
\<close>

datatype SourceNode = Unstarted | Started | Finished

fun node_stop :: "SourceNode \<Rightarrow> exn + SourceNode" where
  "node_stop Unstarted = Inl (External ''InvalidStateError'')"
| "node_stop Started = Inr Finished"
| "node_stop Finished = Inr Finished"

text \<open>
  A pending four-second timer. The one set by \<open>processAudioInput\<close> tests the \<open>status\<close>
  that its closure captured; the one set by \<open>processConversationTurn\<close> tests nothing.
\<close>

datatype Timer = IdleTimer "LoadingState option"

text \<open>
  The component's state variables and refs, the metrics of the enclosing \<open>App\<close> that the
  \<open>updateMetrics\<close> prop updates, the chat session of the service module, and the
  requests issued so far. \<open>chunks\<close> holds the sizes in bytes of the recorded blobs and
  \<open>stream\<close> tells whether the tracks of the microphone stream, if any, are live.
\<close>

record VoiceBot =
  messages :: "Message list"
  status :: LoadingState
  error :: "string option"
  chunks :: "nat list"
  stream :: "bool option"
  audioContext :: bool
  currentSource :: "SourceNode option"
  metrics :: AnalyticsMetrics
  chatSession :: "Chat option"
  requests :: "ServiceCall list"
  timers :: "Timer list"

text \<open>The state at mount; the clock reading of the greeting is taken to be \<open>0\<close>.\<close>

definition initialBot :: VoiceBot where
  "initialBot =
     \<lparr>messages = [\<lparr>msg_id = ''init'', msg_role = Model,
                    msg_text = ''Hello! I'm Sonic. How can I help you today?'',
                    msg_timestamp = 0, msg_audioUrl = None, msg_isToolUse = None\<rparr>],
      status = Idle, error = None, chunks = [], stream = None, audioContext = False,
      currentSource = None, metrics = initialMetrics, chatSession = None, requests = [],
      timers = []\<rparr>"

text \<open>
  What the outside world does during one turn: the answers of the engine, of the browser's
  decoder and audio interfaces, and the readings of the two clocks (\<open>Date.now\<close> for
  message ids and timestamps, \<open>performance.now\<close> around each service call).
\<close>

record Env =
  sendMessage :: "ChatInput \<Rightarrow> exn + ChatResult"
  speechContent :: "string \<Rightarrow> string \<Rightarrow> exn + SpeechResult"
  atob :: "string \<Rightarrow> exn + string"
  transcribeContent :: "string \<Rightarrow> string \<Rightarrow> exn + string option"
  blobToBase64 :: "exn + string"
  newContext :: "exn + unit"
  decodeAudio :: "exn + unit"
  startSource :: "exn + unit"
  now_user_id :: nat
  now_user_timestamp :: nat
  now_bot_id :: nat
  now_bot_timestamp :: nat
  sttStart :: real
  sttEnd :: real
  llmStart :: real
  llmEnd :: real
  ttsStart :: real
  ttsEnd :: real

subsection \<open>Playback\<close>

text \<open>
  \<open>stopPlayback\<close> stops the current source inside a \<open>try\<close> with an empty \<open>catch\<close>;
  it touches neither the ref nor the status. The result is a sum so that a throw out of
  the function would be visible.
\<close>

definition stopPlayback :: "VoiceBot \<Rightarrow> exn + VoiceBot" where
  "stopPlayback s =
     (case currentSource s of
        None \<Rightarrow> Inr s
      | Some node \<Rightarrow>
          (case node_stop node of
             Inl e \<Rightarrow> Inr s
           | Inr node' \<Rightarrow> Inr (s\<lparr>currentSource := Some node'\<rparr>)))"

text \<open>The \<open>onended\<close> handler of a source: it runs when the source stops or runs out.\<close>

definition onended :: "VoiceBot \<Rightarrow> VoiceBot" where
  "onended s = s\<lparr>status := (if status s = Playing then Idle else status s)\<rparr>"

definition playResponse_catch :: "VoiceBot \<Rightarrow> VoiceBot" where
  "playResponse_catch s = s\<lparr>status := Idle, error := Some ''AUDIO ERR''\<rparr>"

text \<open>
  \<open>playResponse\<close>: make the audio context if there is none, resume and decode, store the
  new source in the ref, start it. Each step may throw into the \<open>catch\<close>.
\<close>

definition playResponse :: "Env \<Rightarrow> bytes \<Rightarrow> VoiceBot \<Rightarrow> VoiceBot" where
  "playResponse env pcmData s =
     (case (if audioContext s then Inr () else newContext env) of
        Inl e \<Rightarrow> playResponse_catch s
      | Inr _ \<Rightarrow>
          (let s1 = s\<lparr>audioContext := True\<rparr>
           in case decodeAudio env of
                Inl e \<Rightarrow> playResponse_catch s1
              | Inr _ \<Rightarrow>
                  (let s2 = s1\<lparr>currentSource := Some Unstarted\<rparr>
                   in case startSource env of
                        Inl e \<Rightarrow> playResponse_catch s2
                      | Inr _ \<Rightarrow> s2\<lparr>currentSource := Some Started\<rparr>)))"

subsection \<open>\<open>processConversationTurn\<close>\<close>

text \<open>
  A turn is modelled from its call to the point where its promise settles, the answers
  of the outside world being those of \<open>env\<close>. It is cut at its two waiting points:
  \<open>turn_begin\<close> gives the state while the engine is asked, \<open>turn_synthesize\<close> the state
  while the speech is synthesized, \<open>turn_finish\<close> the rest. The reading \<open>startTime\<close> is
  never used by the code and is left out.
\<close>

text \<open>The two messages of a turn, with their ids taken from the clock.\<close>

definition userMsg :: "Env \<Rightarrow> string \<Rightarrow> Message" where
  "userMsg env userText =
     \<lparr>msg_id = toString (now_user_id env), msg_role = User, msg_text = userText,
      msg_timestamp = now_user_timestamp env, msg_audioUrl = None, msg_isToolUse = None\<rparr>"

definition botMsg :: "Env \<Rightarrow> BotResponse \<Rightarrow> Message" where
  "botMsg env response =
     \<lparr>msg_id = toString (now_bot_id env + 1), msg_role = Model, msg_text = bot_text response,
      msg_timestamp = now_bot_timestamp env, msg_audioUrl = None,
      msg_isToolUse = Some (toolUsed response)\<rparr>"

text \<open>Step 1, before the \<open>try\<close>, and the first statement of the \<open>try\<close>.\<close>

definition turn_begin :: "Env \<Rightarrow> string \<Rightarrow> VoiceBot \<Rightarrow> VoiceBot" where
  "turn_begin env userText s =
     s\<lparr>messages := messages s @ [userMsg env userText], status := Thinking\<rparr>"

text \<open>The \<open>catch\<close> of the turn.\<close>

definition turn_catch :: "VoiceBot \<Rightarrow> VoiceBot" where
  "turn_catch s =
     s\<lparr>error := Some ''SYSTEM ERR'', status := Error, timers := timers s @ [IdleTimer None]\<rparr>"

text \<open>
  Steps 3 to 5, once the response is there: synthesis (a failure only loses the audio),
  metrics, playback or idle, and the assistant's message.
\<close>

definition turn_synthesize :: "VoiceBot \<Rightarrow> VoiceBot" where
  "turn_synthesize s = s\<lparr>status := Synthesizing\<rparr>"

definition turnMetrics :: "Env \<Rightarrow> real \<Rightarrow> bool \<Rightarrow> PartialMetrics" where
  "turnMetrics env sttLatency used =
     (let llmTime = llmEnd env - llmStart env;
          ttsTime = ttsEnd env - ttsStart env;
          totalTime = sttLatency + llmTime + ttsTime
      in \<lparr>p_totalQueries = Some 1,
          p_avgResponseTime = Some totalTime,
          p_backendCalls = Some (if used then 1 else 0),
          p_lastQueryLatency =
            Some \<lparr>stt = sttLatency, llm = llmTime, tts = ttsTime, total = totalTime\<rparr>\<rparr>)"

definition turn_finish :: "Env \<Rightarrow> real \<Rightarrow> BotResponse \<Rightarrow> VoiceBot \<Rightarrow> VoiceBot" where
  "turn_finish env sttLatency response s =
     (let (speech, cs) = generateSpeech (speechContent env) (atob env) (bot_text response) ''Kore'';
          audioData = (case speech of Inl ttsErr \<Rightarrow> None | Inr a \<Rightarrow> a);
          s1 = s\<lparr>requests := requests s @ cs\<rparr>;
          s2 = s1\<lparr>metrics := updateMetrics (turnMetrics env sttLatency (toolUsed response))
                                           (metrics s1)\<rparr>;
          s3 = (case audioData of
                  Some pcmData \<Rightarrow> playResponse env pcmData (s2\<lparr>status := Playing\<rparr>)
                | None \<Rightarrow> s2\<lparr>status := Idle\<rparr>)
      in s3\<lparr>messages := messages s3 @ [botMsg env response]\<rparr>)"

definition processConversationTurn :: "Env \<Rightarrow> string \<Rightarrow> real \<Rightarrow> VoiceBot \<Rightarrow> VoiceBot" where
  "processConversationTurn env userText sttLatency s =
     (let s1 = turn_begin env userText s;
          (answer, chatSession', cs) = getBotResponse (sendMessage env) (chatSession s1) userText;
          s2 = s1\<lparr>chatSession := chatSession', requests := requests s1 @ cs\<rparr>
      in case answer of
           Inl err \<Rightarrow> turn_catch s2
         | Inr response \<Rightarrow> turn_finish env sttLatency response (turn_synthesize s2))"

subsection \<open>Entry points\<close>

definition processAudioInput_catch :: "LoadingState \<Rightarrow> VoiceBot \<Rightarrow> VoiceBot" where
  "processAudioInput_catch captured s =
     s\<lparr>error := Some ''SYSTEM ERR'', status := Error,
       timers := timers s @ [IdleTimer (Some captured)]\<rparr>"

text \<open>
  \<open>processAudioInput\<close> runs when the recorder stops. \<open>captured\<close> is the \<open>status\<close> its
  closure holds. The blob is the concatenation of the chunks, so its size is their sum.
\<close>

definition processAudioInput :: "Env \<Rightarrow> LoadingState \<Rightarrow> VoiceBot \<Rightarrow> VoiceBot" where
  "processAudioInput env captured s =
     (let s0 = (case stream s of None \<Rightarrow> s | Some live \<Rightarrow> s\<lparr>stream := Some False\<rparr>);
          blob_size = sum_list (chunks s0)
      in if blob_size < 100 then s0\<lparr>error := Some ''TOO SHORT'', status := Idle\<rparr>
         else
           (case blobToBase64 env of
              Inl err \<Rightarrow> processAudioInput_catch captured s0
            | Inr base64 \<Rightarrow>
                (let s1 = s0\<lparr>status := Transcribing\<rparr>;
                     (answer, cs) = transcribeAudio (transcribeContent env) base64 ''audio/webm'';
                     s2 = s1\<lparr>requests := requests s1 @ cs\<rparr>
                 in case answer of
                      Inl sttErr \<Rightarrow> processAudioInput_catch captured s2
                    | Inr transcript \<Rightarrow>
                        (if trim transcript = [] \<or> transcript = ''...''
                         then s2\<lparr>status := Idle, error := Some ''NO SPEECH''\<rparr>
                         else processConversationTurn env transcript
                                (sttEnd env - sttStart env) s2))))"

definition handleSuggestionClick :: "Env \<Rightarrow> string \<Rightarrow> VoiceBot \<Rightarrow> VoiceBot" where
  "handleSuggestionClick env txt s =
     (if status s \<noteq> Idle then s else processConversationTurn env txt 0 s)"

text \<open>A timer fires.\<close>

fun fire :: "Timer \<Rightarrow> VoiceBot \<Rightarrow> VoiceBot" where
  "fire (IdleTimer None) s = s\<lparr>status := Idle\<rparr>"
| "fire (IdleTimer (Some captured)) s = (if captured \<noteq> Recording then s\<lparr>status := Idle\<rparr> else s)"

section \<open>Sample inputs\<close>

text \<open>Concrete folds, engines and environments on which the properties below are run.\<close>

definition sampleFold :: "real \<Rightarrow> PartialMetrics" where
  "sampleFold t =
     \<lparr>p_totalQueries = Some 1, p_avgResponseTime = Some t, p_backendCalls = Some 0,
      p_lastQueryLatency = Some \<lparr>stt = 0, llm = t, tts = 0, total = t\<rparr>\<rparr>"

definition engine_down :: "ChatInput \<Rightarrow> exn + ChatResult" where
  "engine_down input = Inl (External ''503 Service Unavailable'')"

definition engine_says :: "string \<Rightarrow> ChatInput \<Rightarrow> exn + ChatResult" where
  "engine_says answer input = Inr \<lparr>res_text = Some answer, functionCalls = None\<rparr>"

definition engine_silent :: "ChatInput \<Rightarrow> exn + ChatResult" where
  "engine_silent input = Inr \<lparr>res_text = None, functionCalls = None\<rparr>"

definition balanceCall :: FunctionCall where
  "balanceCall =
     \<lparr>call_id = Some ''call-1'', call_name = Some ''getAccountBalance'',
      call_args = Some Map.empty\<rparr>"

definition engine_tool_then_silent :: "ChatInput \<Rightarrow> exn + ChatResult" where
  "engine_tool_then_silent input =
     (case input of
        UserMessage m \<Rightarrow> Inr \<lparr>res_text = None, functionCalls = Some [balanceCall]\<rparr>
      | ToolParts ps \<Rightarrow> Inr \<lparr>res_text = Some [], functionCalls = None\<rparr>)"

definition engine_tool_then_down :: "ChatInput \<Rightarrow> exn + ChatResult" where
  "engine_tool_then_down input =
     (case input of
        UserMessage m \<Rightarrow> Inr \<lparr>res_text = None, functionCalls = Some [balanceCall]\<rparr>
      | ToolParts ps \<Rightarrow> Inl (External ''Failed to fetch''))"

definition speech_down :: "string \<Rightarrow> string \<Rightarrow> exn + SpeechResult" where
  "speech_down t v = Inl (External ''Failed to fetch'')"

definition speech_empty :: "string \<Rightarrow> string \<Rightarrow> exn + SpeechResult" where
  "speech_empty t v = Inr \<lparr>candidates = Some []\<rparr>"

definition sampleEnv :: Env where
  "sampleEnv =
     \<lparr>sendMessage = engine_down, speechContent = speech_down, atob = (\<lambda>b. Inr []),
      transcribeContent = (\<lambda>b m. Inl (External ''Failed to fetch'')),
      blobToBase64 = Inr ''GkXfo59ChoEB'',
      newContext = Inr (), decodeAudio = Inr (), startSource = Inr (),
      now_user_id = 1000, now_user_timestamp = 1000,
      now_bot_id = 1200, now_bot_timestamp = 1200,
      sttStart = 0, sttEnd = 120, llmStart = 120, llmEnd = 170, ttsStart = 170, ttsEnd = 250\<rparr>"

text \<open>
  Two suggestion clicks: the first turn is answered in text only and its assistant
  message is appended at time 1200; the second click comes one millisecond later.
\<close>

definition firstClick :: Env where
  "firstClick = sampleEnv\<lparr>sendMessage := engine_says ''We are open from 9 to 5.''\<rparr>"

definition secondClick :: Env where
  "secondClick =
     firstClick\<lparr>now_user_id := 1201, now_user_timestamp := 1201,
                now_bot_id := 1450, now_bot_timestamp := 1450\<rparr>"

text \<open>A recording of 4096 bytes whose transcription fails.\<close>

definition recorded :: VoiceBot where
  "recorded = initialBot\<lparr>status := Recording, chunks := [4096], stream := Some True\<rparr>"

section \<open>Properties of the aggregator\<close>

lemma or_zero_Some [simp]: "or_zero (Some v) = v"
  by (simp add: or_zero_def)

lemma or_zero_None [simp]: "or_zero None = 0"
  by (simp add: or_zero_def)

lemma truthy_Some [simp]: "truthy (Some v) \<longleftrightarrow> v \<noteq> 0"
  by (simp add: truthy_def)

lemma truthy_None [simp]: "\<not> truthy None"
  by (simp add: truthy_def)

lemma updateMetrics_one_query:
  assumes "one_query p t" and "totalQueries m = real n" and "avgResponseTime m = Fin a"
  shows "totalQueries (updateMetrics p m) = real (Suc n)"
    and "avgResponseTime (updateMetrics p m) = Fin ((a * real n + t) / real (Suc n))"
proof -
  from assms(1) have p: "p_totalQueries p = Some 1" "p_avgResponseTime p = Some t" "t \<noteq> 0"
    by (simp_all add: one_query_def)
  show "totalQueries (updateMetrics p m) = real (Suc n)"
    by (simp add: updateMetrics_def Let_def p assms(2))
  have nz: "real n + 1 \<noteq> 0"
    by (metis of_nat_Suc of_nat_eq_0_iff nat.distinct(1) add.commute)
  show "avgResponseTime (updateMetrics p m) = Fin ((a * real n + t) / real (Suc n))"
    using nz by (simp add: updateMetrics_def Let_def p assms(2,3) add.commute)
qed

lemma fold_running_mean:
  assumes "list_all2 one_query ps ts" and "totalQueries m = real n"
    and "avgResponseTime m = Fin a" and "ps \<noteq> []"
  shows "avgResponseTime (fold updateMetrics ps m)
           = Fin ((a * real n + sum_list ts) / real (n + length ts))"
  using assms
proof (induction ps ts arbitrary: m n a rule: list_all2_induct)
  case Nil
  then show ?case by simp
next
  case (Cons p ps t ts)
  let ?m = "updateMetrics p m"
  let ?a = "(a * real n + t) / real (Suc n)"
  have tq: "totalQueries ?m = real (Suc n)"
    and av: "avgResponseTime ?m = Fin ?a"
    using updateMetrics_one_query [OF Cons.hyps(1) Cons.prems(1,2)] by simp_all
  have unfold_avg: "?a * real (Suc n) = a * real n + t"
    by simp
  show ?case
  proof (cases "ps = []")
    case True
    with Cons.hyps(2) have "ts = []" by simp
    with True av show ?thesis by simp
  next
    case False
    from Cons.IH [OF tq av False]
    have "avgResponseTime (fold updateMetrics ps ?m)
            = Fin ((?a * real (Suc n) + sum_list ts) / real (Suc n + length ts))" .
    then show ?thesis
      by (simp only: unfold_avg fold_simps sum_list.Cons list.size add.assoc) (simp add: ac_simps)
  qed
qed

text \<open>
  C1. Starting from the initial metrics, after any non-empty sequence of folds that each
  report one query with a positive total latency, the average response time is the
  arithmetic mean of the latencies folded in; and each such fold follows the rule
  \<open>newAvg = (oldAvg * oldCount + newTotal) / (oldCount + 1)\<close>.
\<close>

theorem updateMetrics_mean:
  "(list_all2 one_query ps ts \<and> ps \<noteq> [] \<longrightarrow>
      avgResponseTime (fold updateMetrics ps initialMetrics)
        = Fin (sum_list ts / real (length ts))) \<and>
   (one_query p t \<and> totalQueries m = real n \<and> avgResponseTime m = Fin a \<longrightarrow>
      avgResponseTime (updateMetrics p m) = Fin ((a * real n + t) / (real n + 1)))"
proof (intro conjI impI)
  assume "list_all2 one_query ps ts \<and> ps \<noteq> []"
  then show "avgResponseTime (fold updateMetrics ps initialMetrics)
        = Fin (sum_list ts / real (length ts))"
    using fold_running_mean [of ps ts initialMetrics 0 0]
    by (simp add: initialMetrics_def)
next
  assume "one_query p t \<and> totalQueries m = real n \<and> avgResponseTime m = Fin a"
  then show "avgResponseTime (updateMetrics p m) = Fin ((a * real n + t) / (real n + 1))"
    using updateMetrics_one_query(2) [of p t m n a] by (simp add: add.commute)
qed

theorem updateMetrics_mean_witness:
  "list_all2 one_query [sampleFold 100, sampleFold 300] [100, 300] \<and>
   avgResponseTime (fold updateMetrics [sampleFold 100, sampleFold 300] initialMetrics) = Fin 200 \<and>
   avgResponseTime (updateMetrics (sampleFold 300)
       \<lparr>totalQueries = 1, avgResponseTime = Fin 100, backendCalls = 0, lastQueryLatency = None\<rparr>)
     = Fin 200"
  using updateMetrics_mean [of "[sampleFold 100, sampleFold 300]" "[100, 300]" "sampleFold 300" 300
      "\<lparr>totalQueries = 1, avgResponseTime = Fin 100, backendCalls = 0, lastQueryLatency = None\<rparr>"
      1 100]
  by (simp add: one_query_def sampleFold_def)

text \<open>
  C7. A fold in which every field is absent changes nothing: the query count, the average,
  the backend call count and the last latency all stay as they are.
\<close>

theorem updateMetrics_absent: "updateMetrics noMetrics m = m"
  by (simp add: updateMetrics_def noMetrics_def)

lemma mean_shifts:
  assumes "ts \<noteq> []" and "sum_list ts \<noteq> (0::real)"
  shows "sum_list ts / real (length ts) \<noteq> sum_list (ts @ [0]) / real (length (ts @ [0]))"
proof -
  have n: "0 < real (length ts)" using assms(1) by simp
  show ?thesis
  proof
    assume "sum_list ts / real (length ts) = sum_list (ts @ [0]) / real (length (ts @ [0]))"
    then have "sum_list ts / real (length ts) = sum_list ts / (real (length ts) + 1)"
      by (simp add: add.commute)
    then have "sum_list ts * (real (length ts) + 1) = sum_list ts * real (length ts)"
      using n by (simp add: field_simps)
    then have "sum_list ts = 0" by (simp add: algebra_simps)
    with assms(2) show False by simp
  qed
qed

text \<open>
  C9, as the code has it. A fold that reports one query with a total latency of exactly
  zero increments the query count and leaves the average as it was, since a zero latency
  is falsy. If the average was the mean of the latencies seen so far and that mean was
  not zero, it is no longer the mean once the zero is counted.
\<close>

theorem zero_latency_skipped:
  "p_totalQueries p = Some 1 \<and> p_avgResponseTime p = Some 0 \<longrightarrow>
     totalQueries (updateMetrics p m) = totalQueries m + 1 \<and>
     avgResponseTime (updateMetrics p m) = avgResponseTime m \<and>
     (ts \<noteq> [] \<and> sum_list ts \<noteq> 0 \<and> avgResponseTime m = Fin (sum_list ts / real (length ts)) \<longrightarrow>
        avgResponseTime (updateMetrics p m)
          \<noteq> Fin (sum_list (ts @ [0]) / real (length (ts @ [0]))))"
proof (intro impI)
  assume p: "p_totalQueries p = Some 1 \<and> p_avgResponseTime p = Some 0"
  then have same: "avgResponseTime (updateMetrics p m) = avgResponseTime m"
    by (simp add: updateMetrics_def Let_def)
  from p have count: "totalQueries (updateMetrics p m) = totalQueries m + 1"
    by (simp add: updateMetrics_def Let_def)
  show "totalQueries (updateMetrics p m) = totalQueries m + 1 \<and>
     avgResponseTime (updateMetrics p m) = avgResponseTime m \<and>
     (ts \<noteq> [] \<and> sum_list ts \<noteq> 0 \<and> avgResponseTime m = Fin (sum_list ts / real (length ts)) \<longrightarrow>
        avgResponseTime (updateMetrics p m)
          \<noteq> Fin (sum_list (ts @ [0]) / real (length (ts @ [0]))))"
    using same count mean_shifts [of ts] by auto
qed

theorem zero_latency_skipped_witness:
  "p_totalQueries (sampleFold 0) = Some 1 \<and> p_avgResponseTime (sampleFold 0) = Some 0 \<and>
   totalQueries (updateMetrics (sampleFold 0)
       \<lparr>totalQueries = 2, avgResponseTime = Fin 200, backendCalls = 0, lastQueryLatency = None\<rparr>) = 3 \<and>
   avgResponseTime (updateMetrics (sampleFold 0)
       \<lparr>totalQueries = 2, avgResponseTime = Fin 200, backendCalls = 0, lastQueryLatency = None\<rparr>)
     = Fin 200 \<and>
   Fin 200 \<noteq> Fin (sum_list ([100, 300] @ [0]) / real (length ([100, 300] @ [0 :: real])))"
  using zero_latency_skipped [of "sampleFold 0"
      "\<lparr>totalQueries = 2, avgResponseTime = Fin 200, backendCalls = 0, lastQueryLatency = None\<rparr>"
      "[100, 300]"]
  by (simp add: sampleFold_def)

text \<open>
  When the zero latency is the first one folded in, the unchanged average \<open>0\<close> is the
  mean of the latencies seen.
\<close>

theorem zero_latency_counterexample:
  "\<not> avgResponseTime (fold updateMetrics [sampleFold 0] initialMetrics)
       \<noteq> Fin (sum_list [0] / real (length [0 :: real]))"
  by (simp add: updateMetrics_def sampleFold_def initialMetrics_def Let_def)

section \<open>Properties of the service layer\<close>

subsection \<open>Speech synthesis\<close>

lemma dropWhile_all:
  "(\<forall>x\<in>set (dropWhile P s). P x) \<longleftrightarrow> dropWhile P s = []"
proof
  assume a: "\<forall>x\<in>set (dropWhile P s). P x"
  show "dropWhile P s = []"
  proof (rule ccontr)
    assume n: "dropWhile P s \<noteq> []"
    then have "\<not> P (hd (dropWhile P s))" by (rule hd_dropWhile)
    moreover from n have "hd (dropWhile P s) \<in> set (dropWhile P s)" by simp
    ultimately show False using a by blast
  qed
qed (auto dest: set_dropWhileD)

text \<open>\<open>!text.trim()\<close> holds exactly for the empty and the white-space-only strings.\<close>

lemma trim_blank: "trim s = [] \<longleftrightarrow> list_all is_ws s"
  by (simp add: trim_def list_all_iff dropWhile_eq_Nil_conv dropWhile_all)

lemma generateSpeech_blank:
  "trim s = [] \<Longrightarrow> generateSpeech gc dec s v = (Inr None, [])"
  by (simp add: generateSpeech_def generateSpeech_try_def)

lemma generateSpeech_asks:
  "trim s \<noteq> [] \<Longrightarrow> snd (generateSpeech gc dec s v) = [SpeechRequest s v]"
  by (simp add: generateSpeech_def generateSpeech_try_def split: sum.splits prod.splits)

lemma generateSpeech_not_null:
  "trim s \<noteq> [] \<Longrightarrow> fst (generateSpeech gc dec s v) \<noteq> Inr None"
  by (auto simp: generateSpeech_def generateSpeech_try_def Let_def
      split: sum.splits prod.splits if_splits)

lemma generateSpeech_no_audio:
  "trim s \<noteq> [] \<Longrightarrow> gc s v = Inr response \<Longrightarrow> falsy (audio_of response) \<Longrightarrow>
     fst (generateSpeech gc dec s v)
       = Inl (JsError ''Speech generation failed. Service might be busy.'')"
  by (simp add: generateSpeech_def generateSpeech_try_def Let_def)

text \<open>
  C10. \<open>generateSpeech\<close> returns \<open>null\<close> exactly when the text is empty or consists of
  white space only, and then no request is sent to the synthesis service. For any other
  text one request is sent, and if the response to it carries no audio data the function
  throws.
\<close>

theorem generateSpeech_null_iff_blank:
  "(fst (generateSpeech gc dec s v) = Inr None \<longleftrightarrow> list_all is_ws s) \<and>
   (list_all is_ws s \<longrightarrow> snd (generateSpeech gc dec s v) = []) \<and>
   (\<not> list_all is_ws s \<longrightarrow> snd (generateSpeech gc dec s v) = [SpeechRequest s v]) \<and>
   (\<not> list_all is_ws s \<and> gc s v = Inr response \<and> falsy (audio_of response) \<longrightarrow>
      fst (generateSpeech gc dec s v)
        = Inl (JsError ''Speech generation failed. Service might be busy.''))"
  using generateSpeech_blank [of s gc dec v] generateSpeech_asks [of s gc dec v]
    generateSpeech_not_null [of s gc dec v] generateSpeech_no_audio [of s gc v response dec]
  by (auto simp: trim_blank)

theorem generateSpeech_null_iff_blank_witness:
  "list_all is_ws ''   '' \<and>
   generateSpeech speech_empty (\<lambda>b. Inr []) ''   '' ''Kore'' = (Inr None, []) \<and>
   \<not> list_all is_ws ''Hello'' \<and>
   speech_empty ''Hello'' ''Kore'' = Inr \<lparr>candidates = Some []\<rparr> \<and>
   falsy (audio_of \<lparr>candidates = Some []\<rparr>) \<and>
   generateSpeech speech_empty (\<lambda>b. Inr []) ''Hello'' ''Kore''
     = (Inl (JsError ''Speech generation failed. Service might be busy.''),
        [SpeechRequest ''Hello'' ''Kore''])"
  using generateSpeech_null_iff_blank [of speech_empty "\<lambda>b. Inr []" "''   ''" "''Kore''"]
    generateSpeech_null_iff_blank [of speech_empty "\<lambda>b. Inr []" "''Hello''" "''Kore''"
      "\<lparr>candidates = Some []\<rparr>"]
  by (simp add: is_ws_def speech_empty_def audio_of_def first_def falsy_def prod_eq_iff)

subsection \<open>Response engine adapter\<close>

lemma getBotResponse_returns:
  "\<exists>r c rq. getBotResponse send chat q = (Inr r, c, rq)"
  by (cases "getBotResponse_try send q"; cases "fst (getBotResponse_try send q)")
     (auto simp: getBotResponse_def)

lemma getBotResponse_caught:
  "fst (getBotResponse_try send q) = Inl e \<Longrightarrow>
     fst (getBotResponse send chat q) = Inr \<lparr>bot_text = apology, toolUsed = False\<rparr>"
  by (cases "getBotResponse_try send q") (auto simp: getBotResponse_def)

lemma getBotResponse_passes:
  "fst (getBotResponse_try send q) = Inr r \<Longrightarrow> fst (getBotResponse send chat q) = Inr r"
  by (cases "getBotResponse_try send q") (auto simp: getBotResponse_def)

lemma try_first_request_fails:
  "send (UserMessage q) = Inl e \<Longrightarrow> fst (getBotResponse_try send q) = Inl e"
  by (simp add: getBotResponse_try_def)

lemma try_tool_fails:
  "send (UserMessage q) = Inr result \<Longrightarrow> functionCalls result = Some (c # cs) \<Longrightarrow>
     run_calls (c # cs) = Inl e \<Longrightarrow> fst (getBotResponse_try send q) = Inl e"
  by (simp add: getBotResponse_try_def)

lemma try_second_request_fails:
  "send (UserMessage q) = Inr result \<Longrightarrow> functionCalls result = Some (c # cs) \<Longrightarrow>
     run_calls (c # cs) = Inr ps \<Longrightarrow> send (ToolParts ps) = Inl e \<Longrightarrow>
     fst (getBotResponse_try send q) = Inl e"
  by (simp add: getBotResponse_try_def)

lemma try_no_tools:
  "send (UserMessage q) = Inr result \<Longrightarrow>
     functionCalls result = None \<or> functionCalls result = Some [] \<Longrightarrow>
     fst (getBotResponse_try send q) = Inr (final_response result False)"
  by (auto simp: getBotResponse_try_def)

lemma try_with_tools:
  "send (UserMessage q) = Inr result \<Longrightarrow> functionCalls result = Some (c # cs) \<Longrightarrow>
     run_calls (c # cs) = Inr ps \<Longrightarrow> send (ToolParts ps) = Inr result' \<Longrightarrow>
     fst (getBotResponse_try send q) = Inr (final_response result' True)"
  by (simp add: getBotResponse_try_def)

lemma final_response_empty:
  "falsy (res_text result) \<Longrightarrow>
     final_response result used = \<lparr>bot_text = clarification, toolUsed = False\<rparr>"
  by (simp add: final_response_def)

lemma run_balanceCall:
  "run_calls [balanceCall]
     = Inr [\<lparr>fr_id = Some ''call-1'', fr_name = Some ''getAccountBalance'',
              fr_result = user_main\<rparr>]"
  by (simp add: run_call_def balanceCall_def)

text \<open>
  C3, as the code has it. When the final response of the engine has no text or an empty
  text, the adapter answers with the fallback sentence of the code, which is
  \<open>I'm sorry, I didn't quite get that. Could you rephrase?\<close>, and reports that no tool
  was used, also when tools did run in that exchange.
\<close>

theorem empty_text_clarification:
  "(send (UserMessage q) = Inr result \<and>
    (functionCalls result = None \<or> functionCalls result = Some []) \<and>
    falsy (res_text result) \<longrightarrow>
      fst (getBotResponse send chat q)
        = Inr \<lparr>bot_text = ''I'm sorry, I didn't quite get that. Could you rephrase?'',
               toolUsed = False\<rparr>) \<and>
   (send (UserMessage q) = Inr result \<and> functionCalls result = Some (c # cs) \<and>
    run_calls (c # cs) = Inr ps \<and> send (ToolParts ps) = Inr result' \<and>
    falsy (res_text result') \<longrightarrow>
      fst (getBotResponse send chat q)
        = Inr \<lparr>bot_text = ''I'm sorry, I didn't quite get that. Could you rephrase?'',
               toolUsed = False\<rparr>)"
  using try_no_tools [of send q result] try_with_tools [of send q result c cs ps result']
    getBotResponse_passes [of send q _ chat]
  by (auto simp: final_response_empty clarification_def)

theorem empty_text_clarification_witness:
  "engine_silent (UserMessage ''Where is my order?'')
     = Inr \<lparr>res_text = None, functionCalls = None\<rparr> \<and>
   falsy (res_text \<lparr>res_text = None, functionCalls = None\<rparr>) \<and>
   fst (getBotResponse engine_silent None ''Where is my order?'')
     = Inr \<lparr>bot_text = ''I'm sorry, I didn't quite get that. Could you rephrase?'',
            toolUsed = False\<rparr> \<and>
   engine_tool_then_silent (UserMessage ''Check my account balance'')
     = Inr \<lparr>res_text = None, functionCalls = Some [balanceCall]\<rparr> \<and>
   falsy (res_text \<lparr>res_text = Some [], functionCalls = None\<rparr>) \<and>
   fst (getBotResponse engine_tool_then_silent None ''Check my account balance'')
     = Inr \<lparr>bot_text = ''I'm sorry, I didn't quite get that. Could you rephrase?'',
            toolUsed = False\<rparr>"
  using empty_text_clarification [of engine_silent "''Where is my order?''"
      "\<lparr>res_text = None, functionCalls = None\<rparr>" None]
    empty_text_clarification [of engine_tool_then_silent "''Check my account balance''"
      "\<lparr>res_text = None, functionCalls = Some [balanceCall]\<rparr>" None balanceCall "[]"
      "[\<lparr>fr_id = Some ''call-1'', fr_name = Some ''getAccountBalance'',
          fr_result = user_main\<rparr>]"
      "\<lparr>res_text = Some [], functionCalls = None\<rparr>"]
  by (simp add: engine_silent_def engine_tool_then_silent_def falsy_def run_balanceCall
      del: run_calls.simps)

text \<open>The sentence of the claim is not the one the code returns.\<close>

theorem empty_text_counterexample:
  "fst (getBotResponse engine_silent None ''Where is my order?'')
     \<noteq> Inr \<lparr>bot_text = ''I didn't quite catch that, could you rephrase?'', toolUsed = False\<rparr>"
  by (simp add: getBotResponse_def getBotResponse_try_def engine_silent_def final_response_def
      falsy_def clarification_def)

section \<open>Properties of the voice bot view\<close>

lemma playResponse_messages [simp]: "messages (playResponse env pcm s) = messages s"
  by (simp add: playResponse_def playResponse_catch_def Let_def split: sum.splits)

lemma playResponse_timers [simp]: "timers (playResponse env pcm s) = timers s"
  by (simp add: playResponse_def playResponse_catch_def Let_def split: sum.splits)

lemma playResponse_status:
  "status s = Playing \<Longrightarrow> status (playResponse env pcm s) \<in> {Playing, Idle}"
  by (simp add: playResponse_def playResponse_catch_def Let_def split: sum.splits)

lemma turn_finish_messages:
  "messages (turn_finish env lat r s) = messages s @ [botMsg env r]"
  by (simp add: turn_finish_def Let_def split: prod.splits option.splits)

lemma turn_finish_timers: "timers (turn_finish env lat r s) = timers s"
  by (simp add: turn_finish_def Let_def split: prod.splits option.splits)

lemma turn_finish_status: "status (turn_finish env lat r s) \<in> {Playing, Idle}"
  using playResponse_status
  by (simp add: turn_finish_def Let_def split: prod.splits option.splits)

lemma processConversationTurn_answered:
  assumes "fst (getBotResponse (sendMessage env) (chatSession s) q) = Inr r"
  shows "\<exists>s2. processConversationTurn env q lat s = turn_finish env lat r (turn_synthesize s2)
           \<and> messages s2 = messages s @ [userMsg env q] \<and> timers s2 = timers s
           \<and> status s2 = Thinking"
  using assms
  by (cases "getBotResponse (sendMessage env) (chatSession s) q")
     (auto simp: processConversationTurn_def turn_begin_def Let_def)

text \<open>
  C2. \<open>getBotResponse\<close> returns a response for every user text and every behaviour of the
  engine: it never throws. Whenever anything throws inside it (the first request, the
  handling of a tool call, or the request that carries the tool results), the response is
  the apology with \<open>toolUsed = false\<close>. A turn whose engine fails therefore goes on
  through synthesis: it appends the user's message and one assistant message, the
  apology, ends playing or idle, and sets no error timer.
\<close>

theorem getBotResponse_never_throws:
  "(\<exists>r c rq. getBotResponse send chat q = (Inr r, c, rq)) \<and>
   (fst (getBotResponse_try send q) = Inl e \<longrightarrow>
      fst (getBotResponse send chat q) = Inr \<lparr>bot_text = apology, toolUsed = False\<rparr>) \<and>
   (send (UserMessage q) = Inl e \<longrightarrow>
      fst (getBotResponse send chat q) = Inr \<lparr>bot_text = apology, toolUsed = False\<rparr>) \<and>
   (send (UserMessage q) = Inr result \<and> functionCalls result = Some (c # cs) \<and>
    run_calls (c # cs) = Inl e \<longrightarrow>
      fst (getBotResponse send chat q) = Inr \<lparr>bot_text = apology, toolUsed = False\<rparr>) \<and>
   (send (UserMessage q) = Inr result \<and> functionCalls result = Some (c # cs) \<and>
    run_calls (c # cs) = Inr ps \<and> send (ToolParts ps) = Inl e \<longrightarrow>
      fst (getBotResponse send chat q) = Inr \<lparr>bot_text = apology, toolUsed = False\<rparr>) \<and>
   (fst (getBotResponse_try (sendMessage env) q) = Inl e \<longrightarrow>
      messages (processConversationTurn env q lat s)
        = messages s @
          [userMsg env q, botMsg env \<lparr>bot_text = apology, toolUsed = False\<rparr>] \<and>
      status (processConversationTurn env q lat s) \<in> {Playing, Idle} \<and>
      timers (processConversationTurn env q lat s) = timers s)"
proof (intro conjI impI)
  show "\<exists>r c rq. getBotResponse send chat q = (Inr r, c, rq)"
    by (rule getBotResponse_returns)
next
  assume "fst (getBotResponse_try send q) = Inl e"
  then show "fst (getBotResponse send chat q) = Inr \<lparr>bot_text = apology, toolUsed = False\<rparr>"
    by (rule getBotResponse_caught)
next
  assume "send (UserMessage q) = Inl e"
  then have "fst (getBotResponse_try send q) = Inl e"
    by (rule try_first_request_fails)
  then show "fst (getBotResponse send chat q) = Inr \<lparr>bot_text = apology, toolUsed = False\<rparr>"
    by (rule getBotResponse_caught)
next
  assume "send (UserMessage q) = Inr result \<and> functionCalls result = Some (c # cs) \<and>
    run_calls (c # cs) = Inl e"
  then have "fst (getBotResponse_try send q) = Inl e"
    using try_tool_fails by blast
  then show "fst (getBotResponse send chat q) = Inr \<lparr>bot_text = apology, toolUsed = False\<rparr>"
    by (rule getBotResponse_caught)
next
  assume "send (UserMessage q) = Inr result \<and> functionCalls result = Some (c # cs) \<and>
    run_calls (c # cs) = Inr ps \<and> send (ToolParts ps) = Inl e"
  then have "fst (getBotResponse_try send q) = Inl e"
    using try_second_request_fails by blast
  then show "fst (getBotResponse send chat q) = Inr \<lparr>bot_text = apology, toolUsed = False\<rparr>"
    by (rule getBotResponse_caught)
next
  let ?r = "\<lparr>bot_text = apology, toolUsed = False\<rparr>"
  assume "fst (getBotResponse_try (sendMessage env) q) = Inl e"
  then have "fst (getBotResponse (sendMessage env) (chatSession s) q) = Inr ?r"
    by (rule getBotResponse_caught)
  from processConversationTurn_answered [OF this, of lat]
  obtain s2 where run: "processConversationTurn env q lat s
        = turn_finish env lat ?r (turn_synthesize s2)"
    and s2: "messages s2 = messages s @ [userMsg env q]" "timers s2 = timers s"
    by blast
  show "messages (processConversationTurn env q lat s)
          = messages s @ [userMsg env q, botMsg env ?r]"
    by (simp add: run turn_finish_messages turn_synthesize_def s2)
  show "status (processConversationTurn env q lat s) \<in> {Playing, Idle}"
    unfolding run by (rule turn_finish_status)
  show "timers (processConversationTurn env q lat s) = timers s"
    by (simp add: run turn_finish_timers turn_synthesize_def s2)
qed

theorem getBotResponse_never_throws_witness:
  "engine_down (UserMessage ''Where is my order?'') = Inl (External ''503 Service Unavailable'') \<and>
   fst (getBotResponse engine_down None ''Where is my order?'')
     = Inr \<lparr>bot_text = apology, toolUsed = False\<rparr> \<and>
   engine_tool_then_down (UserMessage ''Check my account balance'')
     = Inr \<lparr>res_text = None, functionCalls = Some [balanceCall]\<rparr> \<and>
   fst (getBotResponse engine_tool_then_down None ''Check my account balance'')
     = Inr \<lparr>bot_text = apology, toolUsed = False\<rparr> \<and>
   messages (processConversationTurn sampleEnv ''Where is my order?'' 0 initialBot)
     = messages initialBot @
       [userMsg sampleEnv ''Where is my order?'',
        botMsg sampleEnv \<lparr>bot_text = apology, toolUsed = False\<rparr>] \<and>
   status (processConversationTurn sampleEnv ''Where is my order?'' 0 initialBot)
     \<in> {Playing, Idle} \<and>
   timers (processConversationTurn sampleEnv ''Where is my order?'' 0 initialBot) = []"
  using getBotResponse_never_throws [where send = engine_down and chat = None
      and q = "''Where is my order?''" and e = "External ''503 Service Unavailable''"
      and env = sampleEnv and lat = 0 and s = initialBot]
    getBotResponse_never_throws [where send = engine_tool_then_down and chat = None
      and q = "''Check my account balance''" and e = "External ''Failed to fetch''"
      and result = "\<lparr>res_text = None, functionCalls = Some [balanceCall]\<rparr>"
      and c = balanceCall and cs = "[]"
      and ps = "[\<lparr>fr_id = Some ''call-1'', fr_name = Some ''getAccountBalance'',
                    fr_result = user_main\<rparr>]"]
  by (simp add: engine_down_def engine_tool_then_down_def run_balanceCall
      getBotResponse_try_def sampleEnv_def initialBot_def del: run_calls.simps)

text \<open>
  C4. While the pipeline state is not idle, a suggestion click is rejected: the whole
  state, and with it the pipeline state and the transcript, stays as it is. This holds in
  particular at the two points where a turn waits for the engine and for the synthesis.
\<close>

theorem suggestion_rejected:
  "(status s \<noteq> Idle \<longrightarrow> handleSuggestionClick env q s = s) \<and>
   handleSuggestionClick env q (turn_begin env0 q0 s) = turn_begin env0 q0 s \<and>
   handleSuggestionClick env q (turn_synthesize s) = turn_synthesize s"
  by (simp add: handleSuggestionClick_def turn_begin_def turn_synthesize_def)

theorem suggestion_rejected_witness:
  "status (turn_begin firstClick ''What are your support hours?'' initialBot) \<noteq> Idle \<and>
   handleSuggestionClick secondClick ''Check my account balance''
       (turn_begin firstClick ''What are your support hours?'' initialBot)
     = turn_begin firstClick ''What are your support hours?'' initialBot"
  using suggestion_rejected [of "turn_begin firstClick ''What are your support hours?'' initialBot"
      secondClick "''Check my account balance''"]
  by (simp add: turn_begin_def)

text \<open>
  C5. When the recorded audio is shorter than 100 bytes, \<open>processAudioInput\<close> sends no
  request to any service, reports \<open>TOO SHORT\<close>, leaves the pipeline idle and appends
  nothing to the transcript.
\<close>

theorem short_audio_rejected:
  "sum_list (chunks s) < 100 \<Longrightarrow>
     requests (processAudioInput env captured s) = requests s \<and>
     error (processAudioInput env captured s) = Some ''TOO SHORT'' \<and>
     status (processAudioInput env captured s) = Idle \<and>
     messages (processAudioInput env captured s) = messages s"
  by (simp add: processAudioInput_def Let_def split: option.splits)

theorem short_audio_rejected_witness:
  "sum_list (chunks (recorded\<lparr>chunks := [40, 59]\<rparr>)) < 100 \<and>
   requests (processAudioInput sampleEnv Idle (recorded\<lparr>chunks := [40, 59]\<rparr>)) = [] \<and>
   error (processAudioInput sampleEnv Idle (recorded\<lparr>chunks := [40, 59]\<rparr>)) = Some ''TOO SHORT'' \<and>
   status (processAudioInput sampleEnv Idle (recorded\<lparr>chunks := [40, 59]\<rparr>)) = Idle \<and>
   messages (processAudioInput sampleEnv Idle (recorded\<lparr>chunks := [40, 59]\<rparr>))
     = messages initialBot"
  using short_audio_rejected [of "recorded\<lparr>chunks := [40, 59]\<rparr>" sampleEnv Idle]
  by (simp add: recorded_def initialBot_def)

text \<open>
  C6, as the code has it. \<open>stopPlayback\<close> never throws, changes neither the pipeline
  state nor the transcript, and is idempotent; with no source or a finished one it changes
  nothing at all. It does not set the pipeline state: when it stops a playing source, the
  completion handler of that source makes the state idle if it is playing and leaves
  every other state as it is.
\<close>

theorem stopPlayback_no_throw:
  "(\<exists>s'. stopPlayback s = Inr s' \<and> status s' = status s \<and> messages s' = messages s \<and>
         stopPlayback s' = Inr s') \<and>
   (currentSource s = None \<or> currentSource s = Some Finished \<longrightarrow> stopPlayback s = Inr s) \<and>
   (currentSource s = Some Started \<longrightarrow>
      stopPlayback s = Inr (s\<lparr>currentSource := Some Finished\<rparr>) \<and>
      status (onended (s\<lparr>currentSource := Some Finished\<rparr>))
        = (if status s = Playing then Idle else status s))"
proof (intro conjI impI)
  show "\<exists>s'. stopPlayback s = Inr s' \<and> status s' = status s \<and> messages s' = messages s \<and>
         stopPlayback s' = Inr s'"
  proof (cases "currentSource s")
    case None
    then show ?thesis by (simp add: stopPlayback_def)
  next
    case (Some node)
    then show ?thesis by (cases node) (simp_all add: stopPlayback_def)
  qed
next
  assume "currentSource s = None \<or> currentSource s = Some Finished"
  then show "stopPlayback s = Inr s" by (auto simp: stopPlayback_def)
next
  assume "currentSource s = Some Started"
  then show "stopPlayback s = Inr (s\<lparr>currentSource := Some Finished\<rparr>)"
    by (simp add: stopPlayback_def)
next
  show "status (onended (s\<lparr>currentSource := Some Finished\<rparr>))
        = (if status s = Playing then Idle else status s)"
    by (simp add: onended_def)
qed

theorem stopPlayback_no_throw_witness:
  "currentSource initialBot = None \<and> stopPlayback initialBot = Inr initialBot \<and>
   currentSource (initialBot\<lparr>status := Playing, currentSource := Some Started\<rparr>) = Some Started \<and>
   stopPlayback (initialBot\<lparr>status := Playing, currentSource := Some Started\<rparr>)
     = Inr (initialBot\<lparr>status := Playing, currentSource := Some Finished\<rparr>) \<and>
   status (onended (initialBot\<lparr>status := Playing, currentSource := Some Finished\<rparr>)) = Idle"
  using stopPlayback_no_throw [of initialBot]
    stopPlayback_no_throw [of "initialBot\<lparr>status := Playing, currentSource := Some Started\<rparr>"]
  by (simp add: initialBot_def)

text \<open>
  After a failed transcription the pipeline state is \<open>error\<close> and there is no source.
  Stopping playback there leaves the state at \<open>error\<close>, also once a completion handler
  has run.
\<close>

theorem stopPlayback_counterexample:
  "map_sum id status (stopPlayback (processAudioInput sampleEnv Idle recorded)) = Inr Error \<and>
   map_sum id (status \<circ> onended) (stopPlayback (processAudioInput sampleEnv Idle recorded))
     = Inr Error"
  by (simp add: processAudioInput_def Let_def recorded_def initialBot_def sampleEnv_def
      transcribeAudio_def processAudioInput_catch_def stopPlayback_def onended_def)

lemma digit_simps:
  "digit 0 = CHR ''0''" "digit 1 = CHR ''1''" "digit (Suc 0) = CHR ''1''" "digit 2 = CHR ''2''" "digit 3 = CHR ''3''"
  "digit 4 = CHR ''4''" "digit 5 = CHR ''5''" "digit 6 = CHR ''6''" "digit 7 = CHR ''7''"
  "digit 8 = CHR ''8''" "digit 9 = CHR ''9''"
  by code_simp+

text \<open>
  C8 fails on the code. Message ids are \<open>Date.now()\<close> for the user and \<open>Date.now() + 1\<close>
  for the assistant. When the assistant message of a text-only turn is appended at time
  1200 and the next suggestion is clicked at time 1201, both get the id \<open>1201\<close>.
\<close>

theorem message_id_collision:
  "map msg_id (messages
       (handleSuggestionClick secondClick ''Check my account balance''
         (handleSuggestionClick firstClick ''What are your support hours?'' initialBot)))
     = [''init'', ''1000'', ''1201'', ''1201'', ''1451''] \<and>
   \<not> distinct (map msg_id (messages
       (handleSuggestionClick secondClick ''Check my account balance''
         (handleSuggestionClick firstClick ''What are your support hours?'' initialBot))))"
  by (simp add: handleSuggestionClick_def processConversationTurn_def turn_begin_def
      turn_finish_def turn_synthesize_def getBotResponse_def getBotResponse_try_def
      generateSpeech_def generateSpeech_try_def final_response_def falsy_def
      firstClick_def secondClick_def sampleEnv_def engine_says_def speech_down_def
      initialBot_def userMsg_def botMsg_def Let_def trim_def is_ws_def digit_simps)

end
